theory Spec2Isabelle
  imports Complex_Main
begin

section \<open>Values shared by the measurement functions\<close>

text \<open>
  Exceptions that the functions of \<^verbatim>\<open>measurements.py\<close> can raise from their own
  statements or from the shapely constructors they call: a local variable read before any
  assignment, an index past the end of a sequence, and the \<^verbatim>\<open>ValueError\<close> of a polygon
  whose shell has too few points.
\<close>

datatype error = UnboundLocalError | IndexError | ValueError

text \<open>
  A two-dimensional numpy array: its shape \<open>(rows, columns)\<close> and the value at every
  position. Floating-point values are modelled as real numbers.
\<close>

record 'a ndarray =
  nrows :: nat
  ncols :: nat
  px :: "nat \<Rightarrow> nat \<Rightarrow> 'a"

definition shape :: "'a ndarray \<Rightarrow> nat \<times> nat" where
  "shape a = (nrows a, ncols a)"

type_synonym coord = "real \<times> real"

text \<open>
  The dictionaries \<^verbatim>\<open>{'id': ..., 'boundary': ...}\<close> that the contour extractor and the
  cell boundary segmenter return, and that the validator reads.
\<close>

record boundary_record =
  id_rec :: int
  boundary :: "coord list"

section \<open>The geometric validator\<close>

text \<open>
  The shapely geometries built by \<^verbatim>\<open>get_nuclei_features\<close>. A point is built from a row of
  two or three numbers (a blob of the centrosome detector has three), which shapely
  accepts. The predicate \<^verbatim>\<open>a.contains(b)\<close> belongs to shapely, so the validator takes it as
  its first parameter \<open>contains\<close>; it is taken to return a value. The image is a
  two-dimensional array, so that \<^verbatim>\<open>maxw, maxh = img.shape\<close> unpacks.
\<close>

datatype coords = XY real real | XYZ real real real

datatype geometry = Polygon "coord list" | Point coords

text \<open>
  The call \<^verbatim>\<open>Polygon(shell)\<close>: shapely raises \<^verbatim>\<open>ValueError\<close> when the shell has one or two
  points, since a ring needs at least three; from no point it builds the empty polygon.
\<close>

definition shapely_Polygon :: "coord list \<Rightarrow> error + geometry" where
  "shapely_Polygon shell =
     (if length shell = 1 \<or> length shell = 2 then Inl ValueError else Inr (Polygon shell))"

text \<open>
  Lines 222 to 225: the loop over \<^verbatim>\<open>cell_list\<close> with its \<^verbatim>\<open>break\<close>. The last argument
  is the local variable \<^verbatim>\<open>cell\<close>, \<open>None\<close> while it is unbound. The loop stops with the
  exception of line 223 when a boundary is not accepted.
\<close>

fun cell_loop ::
  "(geometry \<Rightarrow> geometry \<Rightarrow> bool) \<Rightarrow> geometry \<Rightarrow> boundary_record list
     \<Rightarrow> geometry option \<Rightarrow> error + geometry option" where
  "cell_loop contains nuc [] cell = Inr cell"
| "cell_loop contains nuc (cll # rest) cell =
     (case shapely_Polygon (boundary cll) of
        Inl e \<Rightarrow> Inl e
      | Inr cell' \<Rightarrow>
          if contains cell' nuc then Inr (Some cell')
          else cell_loop contains nuc rest (Some cell'))"

text \<open>
  Lines 230 to 234: the counter \<^verbatim>\<open>n_nuc\<close> over \<^verbatim>\<open>nuclei_list\<close>, which stops with the
  exception of line 232 when a boundary is not accepted.
\<close>

fun count_nuclei ::
  "(geometry \<Rightarrow> geometry \<Rightarrow> bool) \<Rightarrow> geometry \<Rightarrow> boundary_record list \<Rightarrow> nat
     \<Rightarrow> error + nat" where
  "count_nuclei contains cell [] n_nuc = Inr n_nuc"
| "count_nuclei contains cell (ncl # rest) n_nuc =
     (case shapely_Polygon (boundary ncl) of
        Inl e \<Rightarrow> Inl e
      | Inr nuclei \<Rightarrow>
          count_nuclei contains cell rest (if contains cell nuclei then n_nuc + 1 else n_nuc))"

text \<open>Lines 239 to 243: the list \<^verbatim>\<open>clist\<close> of the centrosome points inside the cell.\<close>

definition collect_centrosomes ::
  "(geometry \<Rightarrow> geometry \<Rightarrow> bool) \<Rightarrow> geometry \<Rightarrow> coords list \<Rightarrow> geometry list" where
  "collect_centrosomes contains cell centrosome_list =
     fold (\<lambda>cen clist. let cenpt = Point cen
                        in if contains cell cenpt then clist @ [cenpt] else clist)
       centrosome_list []"

text \<open>
  Lines 219 and 220: the rectangle of the image, from \<^verbatim>\<open>img.shape\<close>; its shell has four
  points.
\<close>

definition frame_polygon :: "'a ndarray \<Rightarrow> geometry" where
  "frame_polygon img =
     (let (maxw, maxh) = shape img
      in Polygon [(0, 0), (0, real maxw), (real maxh, real maxw), (real maxh, 0)])"

text \<open>
  The returned tuple \<^verbatim>\<open>(valid, cell, nuc, clist)\<close>; Python's \<^verbatim>\<open>None\<close> in the second and
  fourth position is \<open>None\<close>.
\<close>

type_synonym validation = "bool \<times> geometry option \<times> geometry \<times> geometry list option"

definition get_nuclei_features ::
  "(geometry \<Rightarrow> geometry \<Rightarrow> bool) \<Rightarrow> 'a ndarray \<Rightarrow> coord list \<Rightarrow> boundary_record list
     \<Rightarrow> boundary_record list \<Rightarrow> coords list \<Rightarrow> error + validation" where
  "get_nuclei_features contains img nuclei cell_list nuclei_list centrosome_list =
     (let frame = frame_polygon img
      in case shapely_Polygon nuclei of
           Inl e \<Rightarrow> Inl e
         | Inr nuc \<Rightarrow>
            (case cell_loop contains nuc cell_list None of
               Inl e \<Rightarrow> Inl e
             | Inr None \<Rightarrow> Inl UnboundLocalError
             | Inr (Some cell) \<Rightarrow>
                 if \<not> contains frame cell \<or> \<not> contains cell nuc
                 then Inr (False, Some cell, nuc, None)
                 else (case count_nuclei contains cell nuclei_list 0 of
                         Inl e \<Rightarrow> Inl e
                       | Inr n_nuc \<Rightarrow>
                           if n_nuc \<noteq> 1 then Inr (False, Some cell, nuc, None)
                           else let clist = collect_centrosomes contains cell centrosome_list
                                in if length clist = 0 \<or> length clist > 2
                                   then Inr (False, None, nuc, None)
                                   else Inr (True, Some cell, nuc, Some clist))))"

text \<open>
  A containment test for convex polygons, used to run the validator on the squares of
  the specification's scenario. A polygon contains another when every vertex of the
  other lies inside it or on its boundary; it contains a point when the point lies
  strictly inside, whatever its third coordinate. Both are decided by the sign of the
  cross product at every edge.
\<close>

definition cross :: "coord \<Rightarrow> coord \<Rightarrow> coord \<Rightarrow> real" where
  "cross p q r = (fst q - fst p) * (snd r - snd p) - (snd q - snd p) * (fst r - fst p)"

definition edges :: "coord list \<Rightarrow> (coord \<times> coord) list" where
  "edges ps = (case ps of [] \<Rightarrow> [] | p # rest \<Rightarrow> zip ps (rest @ [p]))"

definition inside_closed :: "coord list \<Rightarrow> coord \<Rightarrow> bool" where
  "inside_closed ps r =
     (list_all (\<lambda>(p, q). 0 \<le> cross p q r) (edges ps) \<or>
      list_all (\<lambda>(p, q). cross p q r \<le> 0) (edges ps))"

definition inside_open :: "coord list \<Rightarrow> coord \<Rightarrow> bool" where
  "inside_open ps r =
     (list_all (\<lambda>(p, q). 0 < cross p q r) (edges ps) \<or>
      list_all (\<lambda>(p, q). cross p q r < 0) (edges ps))"

fun convex_contains :: "geometry \<Rightarrow> geometry \<Rightarrow> bool" where
  "convex_contains (Polygon ps) (Polygon qs) = (3 \<le> length ps \<and> qs \<noteq> [] \<and> list_all (inside_closed ps) qs)"
| "convex_contains (Polygon ps) (Point (XY x y)) = (3 \<le> length ps \<and> inside_open ps (x, y))"
| "convex_contains (Polygon ps) (Point (XYZ x y z)) = (3 \<le> length ps \<and> inside_open ps (x, y))"
| "convex_contains g h = False"

text \<open>The scenario of the specification: a 100 by 100 frame and three squares.\<close>

definition square :: "real \<Rightarrow> real \<Rightarrow> coord list" where
  "square lo hi = [(lo, lo), (lo, hi), (hi, hi), (hi, lo)]"

definition frame100 :: "unit ndarray" where
  "frame100 = \<lparr>nrows = 100, ncols = 100, px = (\<lambda>r c. ())\<rparr>"


definition nucleus_rec :: boundary_record where
  "nucleus_rec = \<lparr>id_rec = 0, boundary = square 40 60\<rparr>"







section \<open>The coordinate transform\<close>

text \<open>
  \<^verbatim>\<open>skimage.transform.SimilarityTransform(scale, rotation, translation)\<close> and the call
  \<^verbatim>\<open>tform(coords)\<close>, by the formulas of its documentation:
  \<open>X = s * x * cos r - s * y * sin r + a1\<close> and \<open>Y = s * x * sin r + s * y * cos r + b1\<close>.
  Floating-point numbers are modelled as real numbers.
\<close>

record SimilarityTransform =
  scale :: real
  rotation :: real
  translation :: coord

definition apply_transform :: "SimilarityTransform \<Rightarrow> coord \<Rightarrow> coord" where
  "apply_transform t p =
     (scale t * fst p * cos (rotation t) - scale t * snd p * sin (rotation t)
        + fst (translation t),
      scale t * fst p * sin (rotation t) + scale t * snd p * cos (rotation t)
        + snd (translation t))"

text \<open>
  Lines 123 and 145: \<^verbatim>\<open>tform = tf.SimilarityTransform(rotation=math.pi / 2)\<close>, scale and
  translation at their defaults.
\<close>

definition tform :: SimilarityTransform where
  "tform = \<lparr>scale = 1, rotation = pi / 2, translation = (0, 0)\<rparr>"

text \<open>Lines 128 and 129: \<^verbatim>\<open>contr = tform(contr)\<close>, then \<^verbatim>\<open>contr[:, 0] *= -1\<close>.\<close>

definition rotate_flip :: "coord list \<Rightarrow> coord list" where
  "rotate_flip contr =
     (let contr = map (apply_transform tform) contr
      in map (\<lambda>(a, b). (a * - 1, b)) contr)"

text \<open>
  The inverse that the specification speaks of; the source has none. It undoes the two
  steps in reverse order: the sign flip of the first coordinate, then the similarity
  transform (translation removed, rotation by the opposite angle, division by the scale).
\<close>

definition apply_inverse :: "SimilarityTransform \<Rightarrow> coord \<Rightarrow> coord" where
  "apply_inverse t q =
     (let x = fst q - fst (translation t); y = snd q - snd (translation t)
      in ((x * cos (rotation t) + y * sin (rotation t)) / scale t,
          (y * cos (rotation t) - x * sin (rotation t)) / scale t))"

definition rotate_flip_inverse :: "coord list \<Rightarrow> coord list" where
  "rotate_flip_inverse contr =
     map (apply_inverse tform) (map (\<lambda>(a, b). (a * - 1, b)) contr)"

section \<open>The contour extractor\<close>

text \<open>
  \<^verbatim>\<open>np.roll(y, k)\<close> on a one-dimensional array moves every element \<open>k\<close> places to the
  right, cyclically; \<^verbatim>\<open>np.dot\<close> of two one-dimensional arrays of one length is the sum of
  the products.
\<close>

definition roll :: "'a list \<Rightarrow> nat \<Rightarrow> 'a list" where
  "roll ys k = (if ys = [] then [] else rotate (length ys - k mod length ys) ys)"

definition dot :: "real list \<Rightarrow> real list \<Rightarrow> real" where
  "dot xs ys = sum_list (map2 (*) xs ys)"

text \<open>Lines 118 and 119: the local function \<^verbatim>\<open>polygon_area\<close>.\<close>

definition polygon_area :: "real list \<Rightarrow> real list \<Rightarrow> real" where
  "polygon_area x y = 0.5 * \<bar>dot x (roll y 1) - dot y (roll x 1)\<bar>"

text \<open>
  Lines 122 to 137 with \<^verbatim>\<open>ax=None\<close>. \<^verbatim>\<open>measure.find_contours\<close> belongs to skimage and
  is the first parameter; a contour is the list of its rows, \<^verbatim>\<open>contr[:, 0]\<close> and
  \<^verbatim>\<open>contr[:, 1]\<close> are its two columns.
\<close>

definition nuclei_features ::
  "('i \<Rightarrow> real \<Rightarrow> coord list list) \<Rightarrow> 'i \<Rightarrow> real \<Rightarrow> boundary_record list" where
  "nuclei_features find_contours img area_thresh =
     (let contours = find_contours img 0.9
      in fold (\<lambda>(k, contr) lst.
                 if polygon_area (map fst contr) (map snd contr) > area_thresh
                 then lst @ [\<lparr>id_rec = int k, boundary = rotate_flip contr\<rparr>]
                 else lst)
           (enumerate 0 contours) [])"

text \<open>A tracer that finds one contour, the square from (0, 0) to (10, 10), of area 100.\<close>

definition one_square :: "unit ndarray \<Rightarrow> real \<Rightarrow> coord list list" where
  "one_square img level = [[(0, 0), (10, 0), (10, 10), (0, 10)]]"

text \<open>A tracer that finds one contour, the rectangle from (0, 0) to (20, 10), of area 200.\<close>

definition one_rectangle :: "unit ndarray \<Rightarrow> real \<Rightarrow> coord list list" where
  "one_rectangle img level = [[(0, 0), (20, 0), (20, 10), (0, 10)]]"

section \<open>The centrosome detector\<close>

text \<open>
  A row \<^verbatim>\<open>(blobs[i, 0], blobs[i, 1], blobs[i, 2])\<close> of the array of blobs. The detector
  \<^verbatim>\<open>feature.blob_doh(image, min_sigma, max_sigma, num_sigma, threshold)\<close> belongs to
  skimage and is the first parameter.
\<close>

type_synonym blob = "real \<times> real \<times> real"

definition centrosomes ::
  "('i \<Rightarrow> real \<Rightarrow> real \<Rightarrow> nat \<Rightarrow> real \<Rightarrow> blob list) \<Rightarrow> 'i \<Rightarrow> real \<Rightarrow> blob list" where
  "centrosomes blob_doh img max_sigma =
     (let blobs_log = blob_doh img 0.05 max_sigma 10 0.1;
          blobs_log = map (\<lambda>(a, b, s). (a, b, s * sqrt 2)) blobs_log;
          blobs_log = map (\<lambda>(a, b, s). case apply_transform tform (a, b) of
                                           (a', b') \<Rightarrow> (a', b', s)) blobs_log;
          blobs_log = map (\<lambda>(a, b, s). (a * - 1, b, s)) blobs_log
      in blobs_log)"

text \<open>A detector that finds one blob at row 3, column 7, with scale 1.\<close>

definition one_blob :: "unit ndarray \<Rightarrow> real \<Rightarrow> real \<Rightarrow> nat \<Rightarrow> real \<Rightarrow> blob list" where
  "one_blob img min_sigma max_sigma num_sigma threshold = [(3, 7, 1)]"

section \<open>The cell boundary segmenter\<close>

text \<open>
  The primitives of numpy, skimage, scipy and OpenCV that \<^verbatim>\<open>cell_boundary\<close> calls. They are
  parameters of the model, over a type \<open>'i\<close> of images and kernels; label images are
  arrays of integers. \<^verbatim>\<open>cv2.threshold\<close> returns a pair and the source keeps its second
  component, which is what \<open>threshold_cv\<close> stands for; \<open>div_sum\<close> is \<^verbatim>\<open>kern /= kern.sum()\<close>
  and \<open>negate\<close> the unary minus of an array.
\<close>

datatype thresh_type = THRESH_BINARY | THRESH_OTSU

record 'i imaging =
  percentile :: "'i \<Rightarrow> real \<Rightarrow> real"
  rescale_intensity :: "'i \<Rightarrow> real \<times> real \<Rightarrow> 'i"
  square_selem :: "nat \<Rightarrow> 'i"
  erosion :: "'i \<Rightarrow> 'i \<Rightarrow> 'i"
  getGaborKernel :: "nat \<times> nat \<Rightarrow> real \<Rightarrow> real \<Rightarrow> real \<Rightarrow> real \<Rightarrow> real \<Rightarrow> 'i"
  div_sum :: "'i \<Rightarrow> 'i"
  zeros_like :: "'i \<Rightarrow> 'i"
  filter2D :: "'i \<Rightarrow> 'i \<Rightarrow> 'i"
  maximum :: "'i \<Rightarrow> 'i \<Rightarrow> 'i"
  convertScaleAbs :: "'i \<Rightarrow> real \<Rightarrow> 'i"
  threshold_cv :: "'i \<Rightarrow> real \<Rightarrow> real \<Rightarrow> thresh_type \<Rightarrow> 'i"
  GaussianBlur :: "'i \<Rightarrow> nat \<times> nat \<Rightarrow> real \<Rightarrow> 'i"
  ndi_label :: "'i \<Rightarrow> int ndarray"
  negate :: "'i \<Rightarrow> 'i"
  watershed :: "'i \<Rightarrow> int ndarray \<Rightarrow> 'i \<Rightarrow> int ndarray"
  findContours :: "nat ndarray \<Rightarrow> (int \<times> int) list list"

text \<open>
  Lines 153 to 160: one kernel for each angle of \<^verbatim>\<open>np.arange(0, np.pi, np.pi / 8)\<close>, the
  eight multiples of \<open>pi / 8\<close> below \<open>pi\<close>.
\<close>

definition build_gabor_filters :: "'i imaging \<Rightarrow> 'i list" where
  "build_gabor_filters lib =
     (let ksize = 9
      in fold (\<lambda>theta filters.
                 let kern = getGaborKernel lib (ksize, ksize) 4.0 theta 6.0 0.5 0;
                     kern = div_sum lib kern
                 in filters @ [kern])
           (map (\<lambda>k. real k * (pi / 8)) [0..<8]) [])"

text \<open>Lines 162 to 167: the maximum of the responses, accumulated in place.\<close>

definition process_gabor :: "'i imaging \<Rightarrow> 'i \<Rightarrow> 'i list \<Rightarrow> 'i" where
  "process_gabor lib img filters =
     fold (\<lambda>kern accum. let fimg = filter2D lib img kern in maximum lib accum fimg)
       filters (zeros_like lib img)"

text \<open>
  \<^verbatim>\<open>np.unique\<close> of a two-dimensional array: its distinct values in increasing order. The
  values are read row by row.
\<close>

definition flat :: "'a ndarray \<Rightarrow> 'a list" where
  "flat a = concat (map (\<lambda>r. map (\<lambda>c. px a r c) [0..<ncols a]) [0..<nrows a])"

definition unique :: "('a :: linorder) ndarray \<Rightarrow> 'a list" where
  "unique a = sort (remdups (flat a))"

text \<open>
  Lines 206 and 207: an array of zeros of the shape of \<^verbatim>\<open>labels\<close>, set to 255 where the
  label is \<open>l\<close>.
\<close>

definition label_mask :: "int ndarray \<Rightarrow> int \<Rightarrow> nat ndarray" where
  "label_mask labels l =
     \<lparr>nrows = nrows labels, ncols = ncols labels,
      px = (\<lambda>r c. if px labels r c = l then 255 else 0)\<rparr>"

text \<open>
  Lines 204 to 212: the loop over the positive labels. \<^verbatim>\<open>cnts[0]\<close> raises when no contour
  was found; every point \<^verbatim>\<open>i[0]\<close> of the first contour becomes a row \<^verbatim>\<open>[x, y]\<close> of floats.
\<close>

fun boundaries_loop ::
  "(nat ndarray \<Rightarrow> (int \<times> int) list list) \<Rightarrow> int ndarray \<Rightarrow> int list
     \<Rightarrow> boundary_record list \<Rightarrow> error + boundary_record list" where
  "boundaries_loop find_cnts labels [] boundaries_list = Inr boundaries_list"
| "boundaries_loop find_cnts labels (l # ls) boundaries_list =
     (case find_cnts (label_mask labels l) of
        [] \<Rightarrow> Inl IndexError
      | contour # others \<Rightarrow>
          let bnd = map (\<lambda>(x, y). (real_of_int x, real_of_int y)) contour
          in boundaries_loop find_cnts labels ls
               (boundaries_list @ [\<lparr>id_rec = l, boundary = bnd\<rparr>]))"

text \<open>Lines 169 to 200: from the two channels to the ridge map and the watershed labels.\<close>

definition ridge_and_labels ::
  "'i imaging \<Rightarrow> 'i \<Rightarrow> 'i \<Rightarrow> real \<Rightarrow> int ndarray option \<Rightarrow> 'i \<times> int ndarray" where
  "ridge_and_labels lib tubulin hoechst threshold markers =
     (let p2 = percentile lib tubulin 2;
          p98 = percentile lib tubulin 98;
          tubulin = rescale_intensity lib tubulin (p2, p98);
          p2 = percentile lib hoechst 2;
          p98 = percentile lib hoechst 98;
          hoechst = rescale_intensity lib hoechst (p2, p98);
          img = tubulin;
          img = erosion lib img (square_selem lib 3);
          filters = build_gabor_filters lib;
          gabor = process_gabor lib img filters;
          gabor = convertScaleAbs lib gabor (255.0 / 65535.0);
          bin1 = threshold_cv lib gabor threshold 255 THRESH_BINARY;
          ksize = 31;
          blur = GaussianBlur lib bin1 (ksize, ksize) 0;
          bin2 = threshold_cv lib blur threshold 255 THRESH_OTSU;
          markers =
            (case markers of
               None \<Rightarrow>
                 let hoechst_8 = convertScaleAbs lib hoechst (255.0 / 65535.0);
                     blur_nuc = GaussianBlur lib hoechst_8 (ksize, ksize) 0;
                     bin_nuc = threshold_cv lib blur_nuc 0 255 THRESH_OTSU
                 in ndi_label lib bin_nuc
             | Some m \<Rightarrow> m);
          gabor_proc = gabor;
          labels = watershed lib (negate lib gabor_proc) markers bin2
      in (gabor_proc, labels))"

definition cell_boundary ::
  "'i imaging \<Rightarrow> 'i \<Rightarrow> 'i \<Rightarrow> real \<Rightarrow> int ndarray option
     \<Rightarrow> error + (boundary_record list \<times> 'i)" where
  "cell_boundary lib tubulin hoechst threshold markers =
     (let (gabor_proc, labels) = ridge_and_labels lib tubulin hoechst threshold markers
      in case boundaries_loop (findContours lib) labels
                (filter (\<lambda>l. l > 0) (unique labels)) [] of
           Inl e \<Rightarrow> Inl e
         | Inr boundaries_list \<Rightarrow> Inr (boundaries_list, gabor_proc))"

text \<open>
  Stand-ins for the primitives on a two by two example: the watershed gives the labels
  \<open>0 1 / 2 1\<close>, and the contour of a mask is the list of its set pixels as points
  \<open>(column, row)\<close>.
\<close>

definition labels22 :: "int ndarray" where
  "labels22 = \<lparr>nrows = 2, ncols = 2,
      px = (\<lambda>r c. if r = 0 \<and> c = 0 then 0 else if r = 1 \<and> c = 0 then 2 else 1)\<rparr>"

definition set_pixels :: "nat ndarray \<Rightarrow> (int \<times> int) list list" where
  "set_pixels m =
     [concat (map (\<lambda>r. concat (map (\<lambda>c. if px m r c = 255 then [(int c, int r)] else [])
                                  [0..<ncols m]))
        [0..<nrows m])]"

definition lib22 :: "unit imaging" where
  "lib22 = \<lparr>percentile = (\<lambda>a q. 0), rescale_intensity = (\<lambda>a r. ()),
      square_selem = (\<lambda>n. ()), erosion = (\<lambda>a s. ()),
      getGaborKernel = (\<lambda>k s t l g p. ()), div_sum = (\<lambda>k. ()), zeros_like = (\<lambda>a. ()),
      filter2D = (\<lambda>a k. ()), maximum = (\<lambda>a b. ()), convertScaleAbs = (\<lambda>a s. ()),
      threshold_cv = (\<lambda>a t m k. ()), GaussianBlur = (\<lambda>a k s. ()),
      ndi_label = (\<lambda>a. labels22), negate = (\<lambda>a. ()),
      watershed = (\<lambda>a m b. labels22), findContours = set_pixels\<rparr>"

section \<open>The nuclei segmenter\<close>

text \<open>
  The primitives of skimage that \<^verbatim>\<open>nuclei_segmentation\<close> calls are parameters of the model.
  Each may raise: it returns \<open>Inl\<close> with its exception, of a type \<open>'e\<close> that the model
  leaves open, or \<open>Inr\<close> with its value. \<open>bind_exc\<close> runs the rest of the function on the
  value and lets the exception through, as Python does.
\<close>

definition bind_exc :: "'e + 'a \<Rightarrow> ('a \<Rightarrow> 'e + 'b) \<Rightarrow> 'e + 'b" where
  "bind_exc m f = (case m of Inl e \<Rightarrow> Inl e | Inr x \<Rightarrow> f x)"

text \<open>The attributes of a region of \<^verbatim>\<open>measure.regionprops\<close> that the source reads.\<close>

record RegionProperties =
  label :: nat
  area :: real
  bbox_area :: real
  centroid :: "real \<times> real"
  eccentricity :: real
  equivalent_diameter :: real
  euler_number :: real
  extent :: real
  max_intensity :: real
  mean_intensity :: real
  min_intensity :: real
  orientation :: real
  perimeter :: real

record 'e skimage =
  threshold_otsu :: "real ndarray \<Rightarrow> 'e + real"
  remove_small_holes :: "bool ndarray \<Rightarrow> 'e + bool ndarray"
  remove_small_objects :: "bool ndarray \<Rightarrow> 'e + bool ndarray"
  clear_border :: "bool ndarray \<Rightarrow> 'e + bool ndarray"
  measure_label :: "bool ndarray \<Rightarrow> 'e + nat ndarray"
  regionprops :: "nat ndarray \<Rightarrow> real ndarray \<Rightarrow> 'e + RegionProperties list"

text \<open>
  A pandas table: the index, the name of the index, the names of the columns and the
  rows. \<^verbatim>\<open>pd.DataFrame([], index=[])\<close> is the table with none of them.
\<close>

record DataFrame =
  index :: "nat list"
  index_name :: "string option"
  columns :: "string list"
  rows :: "real list list"

definition empty_frame :: DataFrame where
  "empty_frame = \<lparr>index = [], index_name = None, columns = [], rows = []\<rparr>"

text \<open>Lines 84 to 87: the names of the columns, as the source spells them.\<close>

definition columns_tuple :: "string list" where
  "columns_tuple =
     [''area'', ''bbox_area'', ''centroid_x'', ''centroid_u'', ''eccentricity'',
      ''equivalent_diameter'', ''euler_number'', ''extent'', ''max_intensity'',
      ''mean_intensity'', ''min_intensity'', ''orientation'', ''perimeter'']"

text \<open>Line 71: \<^verbatim>\<open>image >= thresh_val\<close>, element by element.\<close>

definition ge_array :: "real ndarray \<Rightarrow> real \<Rightarrow> bool ndarray" where
  "ge_array img thresh_val =
     \<lparr>nrows = nrows img, ncols = ncols img, px = (\<lambda>r c. px img r c \<ge> thresh_val)\<rparr>"

text \<open>Lines 88 to 105: one row of properties and one index entry for every region.\<close>

definition collect_properties :: "RegionProperties list \<Rightarrow> real list list \<times> nat list" where
  "collect_properties regions =
     fold (\<lambda>p (properties, indices).
             (properties @ [[area p, bbox_area p, fst (centroid p), snd (centroid p),
                             eccentricity p, equivalent_diameter p, euler_number p, extent p,
                             max_intensity p, mean_intensity p, min_intensity p,
                             orientation p, perimeter p]],
              indices @ [label p]))
       regions ([], [])"

text \<open>Lines 106 to 112: the empty table when there is no region, the full one otherwise.\<close>

definition properties_frame :: "RegionProperties list \<Rightarrow> DataFrame" where
  "properties_frame regions =
     (let (properties, indices) = collect_properties regions
      in if length indices = 0 then empty_frame
         else \<lparr>index = indices, index_name = Some ''label'', columns = columns_tuple,
               rows = properties\<rparr>)"

text \<open>Lines 62 to 112. The parameter \<^verbatim>\<open>radius\<close> is not read by the source.\<close>

definition nuclei_segmentation ::
  "'e skimage \<Rightarrow> real ndarray \<Rightarrow> real \<Rightarrow> 'e + (nat ndarray \<times> DataFrame)" where
  "nuclei_segmentation lib img radius =
     bind_exc (threshold_otsu lib img) (\<lambda>thresh_val.
     let thresh = ge_array img thresh_val in
     bind_exc (remove_small_holes lib thresh) (\<lambda>thresh.
     bind_exc (remove_small_objects lib thresh) (\<lambda>thresh.
     bind_exc (clear_border lib thresh) (\<lambda>cleared.
     bind_exc (measure_label lib cleared) (\<lambda>label_image.
     bind_exc (regionprops lib label_image img) (\<lambda>regions.
     Inr (label_image, properties_frame regions)))))))"

text \<open>
  The documented behaviour of three primitives, as far as the properties below need it.
  \<^verbatim>\<open>segmentation.clear_border\<close> keeps the shape and leaves no foreground pixel in the first
  or last row or column; \<^verbatim>\<open>measure.label\<close> keeps the shape and gives the label 0 to every
  background pixel; \<^verbatim>\<open>measure.regionprops\<close> returns one region for each distinct positive
  label of the label image, in increasing order of the labels.
\<close>

definition on_border :: "'a ndarray \<Rightarrow> nat \<Rightarrow> nat \<Rightarrow> bool" where
  "on_border a r c =
     (r < nrows a \<and> c < ncols a \<and> (r = 0 \<or> r = nrows a - 1 \<or> c = 0 \<or> c = ncols a - 1))"

definition clears_border :: "'e skimage \<Rightarrow> bool" where
  "clears_border lib =
     (\<forall>m out. clear_border lib m = Inr out \<longrightarrow>
        nrows out = nrows m \<and> ncols out = ncols m \<and>
        (\<forall>r c. on_border out r c \<longrightarrow> \<not> px out r c))"

definition labels_foreground :: "'e skimage \<Rightarrow> bool" where
  "labels_foreground lib =
     (\<forall>m lab. measure_label lib m = Inr lab \<longrightarrow>
        nrows lab = nrows m \<and> ncols lab = ncols m \<and>
        (\<forall>r c. r < nrows m \<and> c < ncols m \<and> 0 < px lab r c \<longrightarrow> px m r c))"

definition regions_by_label :: "'e skimage \<Rightarrow> bool" where
  "regions_by_label lib =
     (\<forall>lab img regions. regionprops lib lab img = Inr regions \<longrightarrow>
        map label regions = filter (\<lambda>l. 0 < l) (unique lab))"

text \<open>
  Stand-ins for the primitives, to run the segmenter on an image of the values 0 and 1
  whose bright pixels form one block of at least 64 pixels and leave at least 64 dark
  ones. The threshold is one half, and an array without pixels is rejected; the two
  cleaning steps, which only touch holes and objects of fewer than 64 pixels, change
  nothing; the border is cleared by removing the block when it has a pixel in the first or
  last row or column; every foreground pixel gets the label 1; and a region carries its
  label and its number of pixels.
\<close>

definition border_positions :: "'a ndarray \<Rightarrow> (nat \<times> nat) list" where
  "border_positions a =
     filter (\<lambda>(r, c). r = 0 \<or> r = nrows a - 1 \<or> c = 0 \<or> c = ncols a - 1)
       (List.product [0..<nrows a] [0..<ncols a])"

definition clear_connected :: "bool ndarray \<Rightarrow> bool ndarray" where
  "clear_connected m =
     (if list_ex (\<lambda>(r, c). px m r c) (border_positions m)
      then \<lparr>nrows = nrows m, ncols = ncols m, px = (\<lambda>r c. False)\<rparr>
      else m)"

definition label_one :: "bool ndarray \<Rightarrow> nat ndarray" where
  "label_one m =
     \<lparr>nrows = nrows m, ncols = ncols m,
      px = (\<lambda>r c. if r < nrows m \<and> c < ncols m \<and> px m r c then 1 else 0)\<rparr>"

definition region_of :: "nat ndarray \<Rightarrow> nat \<Rightarrow> RegionProperties" where
  "region_of lab l =
     \<lparr>label = l, area = real (length (filter (\<lambda>v. v = l) (flat lab))), bbox_area = 0,
      centroid = (0, 0), eccentricity = 0, equivalent_diameter = 0, euler_number = 0,
      extent = 0, max_intensity = 0, mean_intensity = 0, min_intensity = 0,
      orientation = 0, perimeter = 0\<rparr>"

definition stand_in :: "string skimage" where
  "stand_in =
     \<lparr>threshold_otsu =
        (\<lambda>img. if nrows img = 0 \<or> ncols img = 0 then Inl ''ValueError'' else Inr (1 / 2)),
      remove_small_holes = (\<lambda>m. Inr m),
      remove_small_objects = (\<lambda>m. Inr m),
      clear_border = (\<lambda>m. Inr (clear_connected m)),
      measure_label = (\<lambda>m. Inr (label_one m)),
      regionprops = (\<lambda>lab img. Inr (map (region_of lab) (filter (\<lambda>l. 0 < l) (unique lab))))\<rparr>"

text \<open>
  A twelve by twelve image with a bright block of eight by eight pixels in the middle, and
  one whose block of the same size touches the first row.
\<close>

definition block_image :: "real ndarray" where
  "block_image =
     \<lparr>nrows = 12, ncols = 12,
      px = (\<lambda>r c. if 2 \<le> r \<and> r < 10 \<and> 2 \<le> c \<and> c < 10 then 1 else 0)\<rparr>"

definition touching_image :: "real ndarray" where
  "touching_image =
     \<lparr>nrows = 12, ncols = 12,
      px = (\<lambda>r c. if r < 8 \<and> 2 \<le> c \<and> c < 10 then 1 else 0)\<rparr>"

text \<open>Reading a result: the label at a position, and the index of the table.\<close>

definition label_at :: "'e + (nat ndarray \<times> DataFrame) \<Rightarrow> nat \<Rightarrow> nat \<Rightarrow> nat option" where
  "label_at res r c = (case res of Inl e \<Rightarrow> None | Inr (lab, tab) \<Rightarrow> Some (px lab r c))"

definition table_index :: "'e + (nat ndarray \<times> DataFrame) \<Rightarrow> nat list option" where
  "table_index res = (case res of Inl e \<Rightarrow> None | Inr (lab, tab) \<Rightarrow> Some (index tab))"

section \<open>The nuclei segmenter on an array of any number of dimensions\<close>

text \<open>
  numpy does not fix the number of dimensions of \<^verbatim>\<open>image\<close>, and \<^verbatim>\<open>nuclei_segmentation\<close> never
  reads it. For the inputs that are not two-dimensional the same lines 62 to 112 are
  modelled on an array given by its shape and by its element at every tuple of indices;
  the primitives of skimage are parameters again.
\<close>

record 'a tensor =
  dims :: "nat list"
  item :: "nat list \<Rightarrow> 'a"













section \<open>Properties of the geometric validator\<close>

lemma shapely_Polygon_Inr:
  "(shapely_Polygon shell = Inr g) = (length shell \<noteq> 1 \<and> length shell \<noteq> 2 \<and> g = Polygon shell)"
  by (auto simp: shapely_Polygon_def)

lemma shapely_Polygon_Inl:
  "(shapely_Polygon shell = Inl e) = ((length shell = 1 \<or> length shell = 2) \<and> e = ValueError)"
  by (auto simp: shapely_Polygon_def)

lemma shapely_Polygon_cases:
  "shapely_Polygon shell = Inl ValueError \<or> shapely_Polygon shell = Inr (Polygon shell)"
  by (simp add: shapely_Polygon_def)

text \<open>
  The loop over the cells stops at the first cell whose boundary is not accepted or whose
  polygon contains the nucleus; when there is none, the last cell is left in \<^verbatim>\<open>cell\<close>.
\<close>

lemma cell_loop_find:
  "cell_loop contains nuc cells init =
     (case find (\<lambda>cll. shapely_Polygon (boundary cll) = Inl ValueError
                       \<or> contains (Polygon (boundary cll)) nuc) cells of
        Some cll \<Rightarrow>
          (case shapely_Polygon (boundary cll) of
             Inl e \<Rightarrow> Inl e
           | Inr cell \<Rightarrow> Inr (Some cell))
      | None \<Rightarrow> Inr (if cells = [] then init else Some (Polygon (boundary (last cells)))))"
proof (induction cells arbitrary: init)
  case Nil
  then show ?case by simp
next
  case (Cons cll cells)
  show ?case
    using shapely_Polygon_cases [of "boundary cll"] Cons.IH [of "Some (Polygon (boundary cll))"]
    by (auto split: option.splits)
qed

lemma count_nuclei_filter:
  "count_nuclei contains cell nuclei_list k =
     (if list_all (\<lambda>ncl. shapely_Polygon (boundary ncl) = Inr (Polygon (boundary ncl))) nuclei_list
      then Inr (k + length (filter (\<lambda>ncl. contains cell (Polygon (boundary ncl))) nuclei_list))
      else Inl ValueError)"
proof (induction nuclei_list arbitrary: k)
  case Nil
  then show ?case by simp
next
  case (Cons ncl nuclei_list)
  show ?case
    using shapely_Polygon_cases [of "boundary ncl"] Cons.IH
    by auto
qed

lemma collect_fold:
  "fold (\<lambda>cen clist. let cenpt = Point cen in if P cenpt then clist @ [cenpt] else clist) xs acc
     = acc @ map Point (filter (\<lambda>cen. P (Point cen)) xs)"
  by (induction xs arbitrary: acc) (auto simp: Let_def)

lemma collect_centrosomes_filter:
  "collect_centrosomes contains cell centrosome_list =
     map Point (filter (\<lambda>cen. contains cell (Point cen)) centrosome_list)"
  by (simp add: collect_centrosomes_def collect_fold)

lemma one_or_two: "(length xs = 0 \<or> 2 < length xs) = (\<not> (length xs = 1 \<or> length xs = 2))"
  by arith


text \<open>The validator once a cell has been chosen: lines 226 to 247.\<close>

lemma gnf_chosen:
  assumes "shapely_Polygon nuclei = Inr nuc"
    and "cell_loop contains nuc cell_list None = Inr (Some cell)"
  shows "get_nuclei_features contains img nuclei cell_list nuclei_list centrosome_list =
     (if contains (frame_polygon img) cell \<and> contains cell nuc
      then if list_all (\<lambda>ncl. shapely_Polygon (boundary ncl) = Inr (Polygon (boundary ncl)))
                nuclei_list
           then if length (filter (\<lambda>ncl. contains cell (Polygon (boundary ncl))) nuclei_list) = 1
                then if length (filter (\<lambda>cen. contains cell (Point cen)) centrosome_list) = 1
                        \<or> length (filter (\<lambda>cen. contains cell (Point cen)) centrosome_list) = 2
                     then Inr (True, Some cell, nuc,
                            Some (map Point (filter (\<lambda>cen. contains cell (Point cen)) centrosome_list)))
                     else Inr (False, None, nuc, None)
                else Inr (False, Some cell, nuc, None)
           else Inl ValueError
      else Inr (False, Some cell, nuc, None))"
  unfolding get_nuclei_features_def Let_def one_or_two
  by (simp add: assms count_nuclei_filter collect_centrosomes_filter)





text \<open>
  Claim C2. The validator is claimed never to raise. With an empty cell list the loop of
  lines 222 to 225 never binds \<^verbatim>\<open>cell\<close>, and line 226 reads it: whenever shapely accepts
  the candidate nucleus (no point, or three points and more) the call raises there, and
  whatever the arguments are it returns no tuple.
\<close>

theorem get_nuclei_features_empty_cell_list:
  "get_nuclei_features contains img [] [] nuclei_list centrosome_list = Inl UnboundLocalError
   \<and> get_nuclei_features contains img (p # q # r # shell) [] nuclei_list centrosome_list
       = Inl UnboundLocalError
   \<and> (\<forall>valid cell nuc clist.
        get_nuclei_features contains img nuclei [] nuclei_list centrosome_list
          \<noteq> Inr (valid, cell, nuc, clist))"
  using shapely_Polygon_cases [of nuclei]
  by (auto simp: get_nuclei_features_def shapely_Polygon_def)

theorem get_nuclei_features_empty_cell_list_witness:
  "get_nuclei_features convex_contains frame100 (square 40 60) [] [nucleus_rec] [XY 50 50]
     = Inl UnboundLocalError"
  using get_nuclei_features_empty_cell_list
    [of convex_contains frame100 "[nucleus_rec]" "[XY 50 50]" "(40, 40)" "(40, 60)" "(60, 60)"
      "[(60, 40)]"]
  by (simp add: square_def)

text \<open>
  With at least one cell in the list, and boundaries that shapely accepts, the validator
  always returns a tuple.
\<close>

lemma find_accepted:
  "list_all (\<lambda>cll. shapely_Polygon (boundary cll) = Inr (Polygon (boundary cll))) cell_list \<Longrightarrow>
     find (\<lambda>cll. shapely_Polygon (boundary cll) = Inl ValueError
                  \<or> contains (Polygon (boundary cll)) nuc) cell_list
       = find (\<lambda>cll. contains (Polygon (boundary cll)) nuc) cell_list"
  by (induction cell_list) auto

lemma cell_loop_accepted:
  assumes "list_all (\<lambda>cll. shapely_Polygon (boundary cll) = Inr (Polygon (boundary cll))) cell_list"
  shows "cell_loop contains nuc cell_list None =
     Inr (case find (\<lambda>cll. contains (Polygon (boundary cll)) nuc) cell_list of
            Some cll \<Rightarrow> Some (Polygon (boundary cll))
          | None \<Rightarrow> if cell_list = [] then None else Some (Polygon (boundary (last cell_list))))"
proof (cases "find (\<lambda>cll. contains (Polygon (boundary cll)) nuc) cell_list")
  case None
  then show ?thesis
    by (simp add: cell_loop_find find_accepted [OF assms])
next
  case (Some cll)
  then have "cll \<in> set cell_list"
    by (auto simp: find_Some_iff)
  with assms have "shapely_Polygon (boundary cll) = Inr (Polygon (boundary cll))"
    by (simp add: list_all_iff)
  with Some show ?thesis
    by (simp add: cell_loop_find find_accepted [OF assms])
qed

lemma get_nuclei_features_returns:
  assumes "cell_list \<noteq> []"
    and "shapely_Polygon nuclei = Inr (Polygon nuclei)"
    and "list_all (\<lambda>cll. shapely_Polygon (boundary cll) = Inr (Polygon (boundary cll))) cell_list"
    and "list_all (\<lambda>ncl. shapely_Polygon (boundary ncl) = Inr (Polygon (boundary ncl))) nuclei_list"
  shows "\<exists>v. get_nuclei_features contains img nuclei cell_list nuclei_list centrosome_list = Inr v"
proof -
  from assms(1) have "\<exists>cell. cell_loop contains (Polygon nuclei) cell_list None = Inr (Some cell)"
    by (cases "find (\<lambda>cll. contains (Polygon (boundary cll)) (Polygon nuclei)) cell_list")
      (simp_all add: cell_loop_accepted [OF assms(3)])
  then obtain cell where "cell_loop contains (Polygon nuclei) cell_list None = Inr (Some cell)" ..
  from gnf_chosen [OF assms(2) this, of img nuclei_list centrosome_list] assms(4) show ?thesis
    by auto
qed

text \<open>
  The loop chooses the first cell, in list order, that contains the nucleus; when the list
  is not empty and no cell contains the nucleus, the last cell is left in \<^verbatim>\<open>cell\<close> and
  the check of line 226 rejects.
\<close>

lemma cell_loop_first_match:
  "list_all (\<lambda>cll. shapely_Polygon (boundary cll) = Inr (Polygon (boundary cll))) cell_list \<Longrightarrow>
   find (\<lambda>cll. contains (Polygon (boundary cll)) nuc) cell_list = Some cll \<Longrightarrow>
     cell_loop contains nuc cell_list None = Inr (Some (Polygon (boundary cll)))"
  by (simp add: cell_loop_accepted)

lemma get_nuclei_features_no_match:
  assumes "cell_list \<noteq> []"
    and "shapely_Polygon nuclei = Inr (Polygon nuclei)"
    and "list_all (\<lambda>cll. shapely_Polygon (boundary cll) = Inr (Polygon (boundary cll))) cell_list"
    and "find (\<lambda>cll. contains (Polygon (boundary cll)) (Polygon nuclei)) cell_list = None"
  shows "get_nuclei_features contains img nuclei cell_list nuclei_list centrosome_list
       = Inr (False, Some (Polygon (boundary (last cell_list))), Polygon nuclei, None)"
proof -
  from assms(1,4) have "\<not> contains (Polygon (boundary (last cell_list))) (Polygon nuclei)"
    by (auto simp: find_None_iff)
  moreover from assms(1,4)
  have "cell_loop contains (Polygon nuclei) cell_list None
          = Inr (Some (Polygon (boundary (last cell_list))))"
    by (simp add: cell_loop_accepted [OF assms(3)])
  ultimately show ?thesis
    by (simp add: gnf_chosen [OF assms(2)])
qed

text \<open>
  Claim C3. When no cell of the list contains the candidate nucleus the call is claimed
  to return a tuple with valid = false. For the empty list no cell contains the nucleus,
  and the call returns no tuple at all.
\<close>

theorem no_cell_contains_empty_list_raises:
  "find (\<lambda>cll. contains (Polygon (boundary cll)) (Polygon (square 40 60))) [] = None \<and>
   (\<forall>valid cell nuc clist.
      get_nuclei_features contains frame100 (square 40 60) [] [nucleus_rec] [XY 50 50]
        \<noteq> Inr (valid, cell, nuc, clist))"
  by (simp add: get_nuclei_features_def shapely_Polygon_def square_def)

theorem no_cell_contains_empty_list_raises_witness:
  "find (\<lambda>cll. convex_contains (Polygon (boundary cll)) (Polygon (square 40 60))) [] = None \<and>
   (\<forall>valid cell nuc clist.
      get_nuclei_features convex_contains frame100 (square 40 60) [] [nucleus_rec] [XY 50 50]
        \<noteq> Inr (valid, cell, nuc, clist))"
  using no_cell_contains_empty_list_raises [of convex_contains]
  by simp

section \<open>Properties of the coordinate transform, the contour extractor and the centrosome detector\<close>

lemma apply_tform: "apply_transform tform (a, b) = (- b, a)"
  by (simp add: apply_transform_def tform_def)

lemma rotate_flip_swap: "rotate_flip contr = map prod.swap contr"
  by (auto simp: rotate_flip_def Let_def apply_tform)

lemma apply_inverse_tform: "apply_inverse tform (a, b) = (b, - a)"
  by (simp add: apply_inverse_def tform_def)

lemma rotate_flip_inverse_swap: "rotate_flip_inverse contr = map prod.swap contr"
  by (auto simp: rotate_flip_inverse_def apply_inverse_tform)

lemma nuclei_features_fold:
  "fold (\<lambda>(k, contr) lst.
                 if polygon_area (map fst contr) (map snd contr) > area_thresh
                 then lst @ [\<lparr>id_rec = int k, boundary = rotate_flip contr\<rparr>]
                 else lst) kcs acc
   = acc @ map (\<lambda>(k, contr). \<lparr>id_rec = int k, boundary = rotate_flip contr\<rparr>)
        (filter (\<lambda>(k, contr). polygon_area (map fst contr) (map snd contr) > area_thresh) kcs)"
  by (induction kcs arbitrary: acc) (simp_all add: case_prod_beta)

lemma nuclei_features_filter:
  "nuclei_features find_contours img area_thresh
   = map (\<lambda>(k, contr). \<lparr>id_rec = int k, boundary = rotate_flip contr\<rparr>)
        (filter (\<lambda>(k, contr). polygon_area (map fst contr) (map snd contr) > area_thresh)
           (enumerate 0 (find_contours img 0.9)))"
  by (simp add: nuclei_features_def nuclei_features_fold)

lemma polygon_area_swap:
  "polygon_area (map fst (map prod.swap c)) (map snd (map prod.swap c))
     = polygon_area (map fst c) (map snd c)"
  by (simp add: polygon_area_def comp_def abs_minus_commute)

lemma centrosomes_swap:
  "centrosomes blob_doh img max_sigma
     = map (\<lambda>(a, b, s). (b, a, s * sqrt 2)) (blob_doh img 0.05 max_sigma 10 0.1)"
  by (simp add: centrosomes_def Let_def apply_tform case_prod_beta comp_def)

lemma roll_one: "roll (y # ys) (Suc 0) = last (y # ys) # butlast (y # ys)"
proof (cases ys)
  case Nil
  then show ?thesis by (simp add: roll_def)
next
  case (Cons z zs)
  have "rotate (length (y # ys) - 1) (y # ys) = rotate (length (butlast (y # ys))) (butlast (y # ys) @ [last (y # ys)])"
    by (simp del: butlast.simps last.simps)
  also have "\<dots> = [last (y # ys)] @ butlast (y # ys)"
    by (rule rotate_append)
  finally show ?thesis using Cons by (simp add: roll_def)
qed

text \<open>The inverse undoes every similarity transform whose scale is not zero.\<close>

lemma apply_inverse_apply:
  "scale t \<noteq> 0 \<Longrightarrow> apply_inverse t (apply_transform t p) = p"
proof -
  assume s: "scale t \<noteq> 0"
  define c where "c = cos (rotation t)"
  define d where "d = sin (rotation t)"
  define k where "k = scale t"
  define x where "x = fst p"
  define y where "y = snd p"
  have sc: "d * d + c * c = 1"
    using sin_cos_squared_add [of "rotation t"] by (simp add: power2_eq_square c_def d_def)
  have "(k * x * c - k * y * d) * c + (k * x * d + k * y * c) * d = k * x * (d * d + c * c)"
    by (simp only: algebra_simps)
  then have 1: "((k * x * c - k * y * d) * c + (k * x * d + k * y * c) * d) / k = x"
    using s by (simp only: sc k_def) simp
  have "(k * x * d + k * y * c) * c - (k * x * c - k * y * d) * d = k * y * (d * d + c * c)"
    by (simp only: algebra_simps)
  then have 2: "((k * x * d + k * y * c) * c - (k * x * c - k * y * d) * d) / k = y"
    using s by (simp only: sc k_def) simp
  have "apply_inverse t (apply_transform t p)
      = (((k * x * c - k * y * d) * c + (k * x * d + k * y * c) * d) / k,
         ((k * x * d + k * y * c) * c - (k * x * c - k * y * d) * d) / k)"
    by (simp add: apply_inverse_def apply_transform_def Let_def c_def d_def k_def x_def y_def)
  also have "\<dots> = (x, y)"
    by (simp only: 1 2)
  finally show ?thesis
    by (simp add: x_def y_def)
qed

lemma filter_enumerate_snd:
  "map snd (filter (\<lambda>(k, c). P c) (enumerate n xs)) = filter P xs"
  by (induction xs arbitrary: n) simp_all

lemma nuclei_features_boundaries:
  "map boundary (nuclei_features find_contours img area_thresh)
     = map rotate_flip
         (filter (\<lambda>contr. area_thresh < polygon_area (map fst contr) (map snd contr))
            (find_contours img 0.9))"
proof -
  let ?P = "\<lambda>contr. area_thresh < polygon_area (map fst contr) (map snd contr)"
  let ?kcs = "filter (\<lambda>(k, contr). ?P contr) (enumerate 0 (find_contours img 0.9))"
  have "map boundary (nuclei_features find_contours img area_thresh)
      = map rotate_flip (map snd ?kcs)"
    by (simp add: nuclei_features_filter comp_def case_prod_beta)
  also have "map snd ?kcs = filter ?P (find_contours img 0.9)"
    by (rule filter_enumerate_snd)
  finally show ?thesis .
qed

text \<open>
  Claim C10. The rotation by \<open>pi / 2\<close> sends \<open>(a, b)\<close> to \<open>(- b, a)\<close>; followed by the
  negation of the first coordinate it is the swap \<open>(a, b) \<mapsto> (b, a)\<close>, applied twice it
  gives the point back. Every boundary returned by the contour extractor is its traced
  contour with the coordinates swapped, and every blob of the centrosome detector has the
  two coordinates of the detected blob swapped.
\<close>

theorem rotate_flip_is_swap:
  "apply_transform tform (a, b) = (- b, a)
   \<and> rotate_flip [(a, b)] = [(b, a)]
   \<and> rotate_flip contr = map prod.swap contr
   \<and> rotate_flip (rotate_flip contr) = contr
   \<and> map boundary (nuclei_features find_contours img area_thresh)
       = map (map prod.swap)
           (filter (\<lambda>contr. area_thresh < polygon_area (map fst contr) (map snd contr))
              (find_contours img 0.9))
   \<and> centrosomes blob_doh img max_sigma
       = map (\<lambda>(a, b, s). (b, a, s * sqrt 2)) (blob_doh img 0.05 max_sigma 10 0.1)"
proof (intro conjI)
  show "apply_transform tform (a, b) = (- b, a)"
    by (rule apply_tform)
  show "rotate_flip [(a, b)] = [(b, a)]"
    by (simp add: rotate_flip_swap)
  show "rotate_flip contr = map prod.swap contr"
    by (rule rotate_flip_swap)
  show "rotate_flip (rotate_flip contr) = contr"
    by (simp add: rotate_flip_swap comp_def)
  have "rotate_flip = map prod.swap"
    by (rule ext) (rule rotate_flip_swap)
  then show "map boundary (nuclei_features find_contours img area_thresh)
       = map (map prod.swap)
           (filter (\<lambda>contr. area_thresh < polygon_area (map fst contr) (map snd contr))
              (find_contours img 0.9))"
    by (simp only: nuclei_features_boundaries)
  show "centrosomes blob_doh img max_sigma
       = map (\<lambda>(a, b, s). (b, a, s * sqrt 2)) (blob_doh img 0.05 max_sigma 10 0.1)"
    by (rule centrosomes_swap)
qed

text \<open>
  Claim C8. In exact arithmetic the transform followed by its inverse, and the inverse
  followed by the transform, give every polygon back unchanged, so the reconstruction is
  within every tolerance; the rotation followed by its inverse gives every point back
  whatever the angle is, also when it is only close to \<open>pi / 2\<close>. Undoing the transform on the boundaries of the contour extractor
  gives the traced contours that were kept, and undoing it on the blobs of the centrosome
  detector gives the coordinates of the detected blobs.
\<close>

theorem rotate_flip_roundtrip:
  "rotate_flip_inverse (rotate_flip contr) = contr
   \<and> rotate_flip (rotate_flip_inverse contr) = contr
   \<and> apply_inverse \<lparr>scale = 1, rotation = theta, translation = (0, 0)\<rparr>
         (apply_transform \<lparr>scale = 1, rotation = theta, translation = (0, 0)\<rparr> p) = p
   \<and> map rotate_flip_inverse (map boundary (nuclei_features find_contours img area_thresh))
       = filter (\<lambda>contr. area_thresh < polygon_area (map fst contr) (map snd contr))
           (find_contours img 0.9)
   \<and> rotate_flip_inverse (map (\<lambda>(a, b, s). (a, b)) (centrosomes blob_doh img max_sigma))
       = map (\<lambda>(a, b, s). (a, b)) (blob_doh img 0.05 max_sigma 10 0.1)"
proof (intro conjI)
  show rt: "rotate_flip_inverse (rotate_flip c) = c" for c
    by (simp add: rotate_flip_swap rotate_flip_inverse_swap comp_def)
  show "rotate_flip (rotate_flip_inverse contr) = contr"
    by (simp add: rotate_flip_swap rotate_flip_inverse_swap comp_def)
  show "apply_inverse \<lparr>scale = 1, rotation = theta, translation = (0, 0)\<rparr>
         (apply_transform \<lparr>scale = 1, rotation = theta, translation = (0, 0)\<rparr> p) = p"
    by (rule apply_inverse_apply) simp
  have "map rotate_flip_inverse (map rotate_flip cs) = cs" for cs
    by (induction cs) (simp_all add: rt)
  then show "map rotate_flip_inverse (map boundary (nuclei_features find_contours img area_thresh))
       = filter (\<lambda>contr. area_thresh < polygon_area (map fst contr) (map snd contr))
           (find_contours img 0.9)"
    by (simp only: nuclei_features_boundaries)
  show "rotate_flip_inverse (map (\<lambda>(a, b, s). (a, b)) (centrosomes blob_doh img max_sigma))
       = map (\<lambda>(a, b, s). (a, b)) (blob_doh img 0.05 max_sigma 10 0.1)"
    by (simp add: centrosomes_swap rotate_flip_inverse_swap comp_def case_prod_beta)
qed

lemma polygon_area_rotate_flip:
  "polygon_area (map fst (rotate_flip c)) (map snd (rotate_flip c))
     = polygon_area (map fst c) (map snd c)"
  by (simp only: rotate_flip_swap polygon_area_swap)

lemma nuclei_features_areas:
  "list_all (\<lambda>r. area_thresh < polygon_area (map fst (boundary r)) (map snd (boundary r)))
     (nuclei_features find_contours img area_thresh)"
  by (simp add: nuclei_features_filter list_all_iff case_prod_beta polygon_area_rotate_flip)

text \<open>
  Claim C7, as the code has it. The extractor keeps the traced contours whose shoelace
  area is strictly greater than the threshold, in order, each under the index it has among
  all the traced contours and with its coordinates transformed; a contour is discarded
  exactly when its area is at most the threshold. The shoelace area of every returned
  boundary is strictly greater than the threshold.
\<close>

theorem nuclei_features_keeps_larger_area:
  "nuclei_features find_contours img area_thresh
     = map (\<lambda>(k, contr). \<lparr>id_rec = int k, boundary = rotate_flip contr\<rparr>)
         (filter (\<lambda>(k, contr). area_thresh < polygon_area (map fst contr) (map snd contr))
            (enumerate 0 (find_contours img 0.9)))
   \<and> length (nuclei_features find_contours img area_thresh)
       = length (filter (\<lambda>contr. \<not> polygon_area (map fst contr) (map snd contr) \<le> area_thresh)
           (find_contours img 0.9))
   \<and> list_all (\<lambda>r. area_thresh < polygon_area (map fst (boundary r)) (map snd (boundary r)))
         (nuclei_features find_contours img area_thresh)"
proof (intro conjI)
  have "length (nuclei_features find_contours img area_thresh)
      = length (map boundary (nuclei_features find_contours img area_thresh))"
    by simp
  also have "\<dots> = length (filter (\<lambda>contr. area_thresh < polygon_area (map fst contr) (map snd contr))
           (find_contours img 0.9))"
    by (simp only: nuclei_features_boundaries length_map)
  finally show "length (nuclei_features find_contours img area_thresh)
       = length (filter (\<lambda>contr. \<not> polygon_area (map fst contr) (map snd contr) \<le> area_thresh)
           (find_contours img 0.9))"
    by (simp add: not_le)
qed (simp_all only: nuclei_features_filter [symmetric] nuclei_features_areas)

theorem nuclei_features_keeps_larger_area_witness:
  "nuclei_features one_rectangle frame100 100
     = [\<lparr>id_rec = 0, boundary = [(0, 0), (0, 20), (10, 20), (10, 0)]\<rparr>]
   \<and> polygon_area [0, 0, 10, 10] [0, 20, 20, 0] = 200"
proof -
  have a: "polygon_area [0, 20, 20, 0] [0, 0, 10, 10] = 200"
    by (simp add: polygon_area_def roll_one dot_def)
  have b: "polygon_area [0, 0, 10, 10] [0, 20, 20, 0] = 200"
    by (simp add: polygon_area_def roll_one dot_def)
  from nuclei_features_keeps_larger_area [of one_rectangle frame100 100]
  have "nuclei_features one_rectangle frame100 100
     = map (\<lambda>(k, contr). \<lparr>id_rec = int k, boundary = rotate_flip contr\<rparr>)
         (filter (\<lambda>(k, contr). 100 < polygon_area (map fst contr) (map snd contr))
            (enumerate 0 (one_rectangle frame100 0.9)))"
    by blast
  then show ?thesis
    by (simp add: one_rectangle_def a b rotate_flip_swap)
qed

text \<open>
  Claim C7 as stated fails where the area equals the threshold: the square from (0, 0) to
  (10, 10) has shoelace area 100, which is not below the default threshold 100, and the
  extractor discards it.
\<close>

theorem area_at_threshold_is_discarded:
  "polygon_area [0, 10, 10, 0] [0, 0, 10, 10] = 100
   \<and> \<not> polygon_area [0, 10, 10, 0] [0, 0, 10, 10] < 100
   \<and> nuclei_features one_square frame100 100 = []"
proof -
  have a: "polygon_area [0, 10, 10, 0] [0, 0, 10, 10] = 100"
    by (simp add: polygon_area_def roll_one dot_def)
  then show ?thesis
    by (simp add: nuclei_features_filter one_square_def)
qed

section \<open>Properties of the cell boundary segmenter\<close>

lemma boundaries_loop_acc:
  "boundaries_loop fc labels ls acc = Inr bl \<Longrightarrow>
     bl = acc @ map (\<lambda>l. \<lparr>id_rec = l,
                    boundary = map (\<lambda>(x, y). (real_of_int x, real_of_int y))
                                 (hd (fc (label_mask labels l)))\<rparr>) ls"
proof (induction ls arbitrary: acc)
  case Nil
  then show ?case by simp
next
  case (Cons l ls)
  from Cons.prems obtain contour others where c: "fc (label_mask labels l) = contour # others"
    by (cases "fc (label_mask labels l)") simp_all
  let ?r = "\<lparr>id_rec = l, boundary = map (\<lambda>(x, y). (real_of_int x, real_of_int y)) contour\<rparr>"
  from Cons.prems c have "boundaries_loop fc labels ls (acc @ [?r]) = Inr bl"
    by simp
  from Cons.IH [OF this] c show ?case
    by simp
qed

lemma boundaries_loop_total:
  "list_all (\<lambda>l. fc (label_mask labels l) \<noteq> []) ls \<Longrightarrow>
     \<exists>bl. boundaries_loop fc labels ls acc = Inr bl"
proof (induction ls arbitrary: acc)
  case Nil
  then show ?case by simp
next
  case (Cons l ls)
  then obtain contour others where c: "fc (label_mask labels l) = contour # others"
    by (cases "fc (label_mask labels l)") simp_all
  from Cons.prems have "list_all (\<lambda>l. fc (label_mask labels l) \<noteq> []) ls"
    by simp
  from Cons.IH [OF this] c show ?case
    by simp
qed

lemma unique_labels22: "unique labels22 = [0, 1, 2]"
  by (simp add: unique_def flat_def labels22_def eval_nat_numeral)

lemma set_pixels_1: "set_pixels (label_mask labels22 1) = [[(1, 0), (1, 1)]]"
  by (simp add: set_pixels_def label_mask_def labels22_def eval_nat_numeral)

lemma set_pixels_2: "set_pixels (label_mask labels22 2) = [[(0, 1)]]"
  by (simp add: set_pixels_def label_mask_def labels22_def eval_nat_numeral)

text \<open>
  Claim C9. Whenever the cell boundary segmenter returns, its list has one record for each
  positive label of the watershed, in increasing order, and the boundary of a record is
  the first contour that \<^verbatim>\<open>cv2.findContours\<close> found on the mask of that label, point by point,
  the integer pixel coordinates only converted to floats: neither the rotation nor the
  sign flip is applied. It returns whenever a contour is found for every positive label.
\<close>

theorem cell_boundary_raw_pixel_coordinates:
  "(cell_boundary lib tubulin hoechst threshold markers = Inr (boundaries_list, gabor_proc)
      \<longrightarrow> boundaries_list
          = map (\<lambda>l. \<lparr>id_rec = l,
                     boundary = map (\<lambda>(x, y). (real_of_int x, real_of_int y))
                       (hd (findContours lib
                          (label_mask (snd (ridge_and_labels lib tubulin hoechst threshold markers)) l)))\<rparr>)
              (filter (\<lambda>l. 0 < l)
                 (unique (snd (ridge_and_labels lib tubulin hoechst threshold markers)))))
   \<and> (list_all
         (\<lambda>l. findContours lib
                (label_mask (snd (ridge_and_labels lib tubulin hoechst threshold markers)) l) \<noteq> [])
         (filter (\<lambda>l. 0 < l)
            (unique (snd (ridge_and_labels lib tubulin hoechst threshold markers))))
      \<longrightarrow> (\<exists>bl. cell_boundary lib tubulin hoechst threshold markers
                  = Inr (bl, fst (ridge_and_labels lib tubulin hoechst threshold markers))))"
proof (intro conjI impI)
  let ?labels = "snd (ridge_and_labels lib tubulin hoechst threshold markers)"
  let ?ls = "filter (\<lambda>l. 0 < l) (unique ?labels)"
  {
    assume "cell_boundary lib tubulin hoechst threshold markers = Inr (boundaries_list, gabor_proc)"
    then have "boundaries_loop (findContours lib) ?labels ?ls [] = Inr boundaries_list"
      by (simp add: cell_boundary_def case_prod_beta split: sum.splits)
    from boundaries_loop_acc [OF this]
    show "boundaries_list
          = map (\<lambda>l. \<lparr>id_rec = l,
                     boundary = map (\<lambda>(x, y). (real_of_int x, real_of_int y))
                       (hd (findContours lib (label_mask ?labels l)))\<rparr>) ?ls"
      by simp
  }
  {
    assume "list_all (\<lambda>l. findContours lib (label_mask ?labels l) \<noteq> []) ?ls"
    from boundaries_loop_total [OF this, of "[]"]
    obtain bl where "boundaries_loop (findContours lib) ?labels ?ls [] = Inr bl" ..
    then have "cell_boundary lib tubulin hoechst threshold markers
                  = Inr (bl, fst (ridge_and_labels lib tubulin hoechst threshold markers))"
      by (simp add: cell_boundary_def case_prod_beta)
    then show "\<exists>bl. cell_boundary lib tubulin hoechst threshold markers
                  = Inr (bl, fst (ridge_and_labels lib tubulin hoechst threshold markers))" ..
  }
qed

lemma ridge_and_labels_lib22: "ridge_and_labels lib22 () () 80 None = ((), labels22)"
  by (simp add: ridge_and_labels_def lib22_def Let_def)

text \<open>
  On the two by two example the records hold the points of the masks as they are, in
  \<open>(column, row)\<close> order; the transform of the contour extractor would have swapped them.
\<close>

theorem cell_boundary_raw_pixel_coordinates_witness:
  "cell_boundary lib22 () () 80 None
     = Inr ([\<lparr>id_rec = 1, boundary = [(1, 0), (1, 1)]\<rparr>, \<lparr>id_rec = 2, boundary = [(0, 1)]\<rparr>], ())
   \<and> rotate_flip [(1, 0), (1, 1)] \<noteq> [(1, 0), (1, 1)]"
proof -
  have fc: "findContours lib22 = set_pixels"
    by (simp add: lib22_def)
  have pos: "filter (\<lambda>l. 0 < l) (unique labels22) = [1, 2]"
    by (simp add: unique_labels22)
  have "list_all (\<lambda>l. findContours lib22 (label_mask labels22 l) \<noteq> []) [1, 2]"
    by (simp add: fc set_pixels_1 set_pixels_2)
  with cell_boundary_raw_pixel_coordinates [of lib22 "()" "()" 80 None]
  obtain bl where bl: "cell_boundary lib22 () () 80 None = Inr (bl, ())"
    by (auto simp: ridge_and_labels_lib22 pos)
  with cell_boundary_raw_pixel_coordinates [of lib22 "()" "()" 80 None bl "()"]
  have "bl = [\<lparr>id_rec = 1, boundary = [(1, 0), (1, 1)]\<rparr>, \<lparr>id_rec = 2, boundary = [(0, 1)]\<rparr>]"
    by (simp add: ridge_and_labels_lib22 pos fc set_pixels_1 set_pixels_2)
  with bl show ?thesis
    by (simp add: rotate_flip_swap)
qed

section \<open>Properties of the nuclei segmenter\<close>

lemma bind_exc_Inr:
  "(bind_exc m f = Inr y) = (\<exists>x. m = Inr x \<and> f x = Inr y)"
  by (cases m) (simp_all add: bind_exc_def)

lemma bind_exc_Inl:
  "(bind_exc m f = Inl e) = (m = Inl e \<or> (\<exists>x. m = Inr x \<and> f x = Inl e))"
  by (cases m) (simp_all add: bind_exc_def)

lemma nuclei_segmentation_Inr:
  "(nuclei_segmentation lib img radius = Inr (label_image, tab)) =
     (\<exists>thresh_val holes objects cleared regions.
        threshold_otsu lib img = Inr thresh_val \<and>
        remove_small_holes lib (ge_array img thresh_val) = Inr holes \<and>
        remove_small_objects lib holes = Inr objects \<and>
        clear_border lib objects = Inr cleared \<and>
        measure_label lib cleared = Inr label_image \<and>
        regionprops lib label_image img = Inr regions \<and>
        tab = properties_frame regions)"
  by (auto simp: nuclei_segmentation_def bind_exc_Inr Let_def)

lemma collect_properties_indices:
  "snd (fold (\<lambda>p (properties, indices).
             (properties @ [f p], indices @ [label p])) regions (ps, is))
     = is @ map label regions
   \<and> length (fst (fold (\<lambda>p (properties, indices).
             (properties @ [f p], indices @ [label p])) regions (ps, is)))
     = length ps + length regions"
  by (induction regions arbitrary: ps "is") simp_all

lemma collect_properties_eq:
  "snd (collect_properties regions) = map label regions
   \<and> length (fst (collect_properties regions)) = length regions"
  using collect_properties_indices [of _ regions "[]" "[]"]
  by (simp add: collect_properties_def)

lemma properties_frame_index: "index (properties_frame regions) = map label regions"
  using collect_properties_eq [of regions]
  by (cases "collect_properties regions") (auto simp: properties_frame_def empty_frame_def)

lemma properties_frame_rows: "length (rows (properties_frame regions)) = length regions"
  using collect_properties_eq [of regions]
  by (cases "collect_properties regions") (auto simp: properties_frame_def empty_frame_def)

lemma properties_frame_empty: "map label regions = [] \<Longrightarrow> properties_frame regions = empty_frame"
  using collect_properties_eq [of regions]
  by (cases "collect_properties regions") (auto simp: properties_frame_def)

lemma positive_labels_card:
  "length (filter (\<lambda>l. 0 < l) (unique lab)) = card {l \<in> set (flat lab). 0 < l}"
proof -
  have "distinct (filter (\<lambda>l. 0 < l) (unique lab))"
    by (simp add: unique_def)
  then have "length (filter (\<lambda>l. 0 < l) (unique lab)) = card (set (filter (\<lambda>l. 0 < l) (unique lab)))"
    by (rule distinct_card [symmetric])
  also have "set (filter (\<lambda>l. 0 < l) (unique lab)) = {l \<in> set (flat lab). 0 < l}"
    by (auto simp: unique_def)
  finally show ?thesis .
qed

lemma positive_labels_none:
  "list_all (\<lambda>l. l = 0) (flat lab) \<Longrightarrow> filter (\<lambda>l. 0 < l) (unique lab) = []"
  by (auto simp: unique_def list_all_iff filter_empty_conv)

text \<open>
  Claim C4. When \<^verbatim>\<open>clear_border\<close> and \<^verbatim>\<open>measure.label\<close> behave as documented, every pixel in
  the first or last row or column of the label image that the segmenter returns has the
  label 0: no positive label has a pixel there.
\<close>

theorem nuclei_segmentation_border_is_background:
  assumes "clears_border lib" and "labels_foreground lib"
    and "nuclei_segmentation lib img radius = Inr (label_image, tab)"
    and "on_border label_image r c"
  shows "px label_image r c = 0"
proof -
  from assms(3) obtain objects cleared where
    cb: "clear_border lib objects = Inr cleared" and
    ml: "measure_label lib cleared = Inr label_image"
    by (auto simp: nuclei_segmentation_Inr)
  from assms(2) ml have sh: "nrows label_image = nrows cleared" "ncols label_image = ncols cleared"
    and fg: "r < nrows cleared \<and> c < ncols cleared \<and> 0 < px label_image r c \<longrightarrow> px cleared r c"
    unfolding labels_foreground_def by blast+
  from assms(4) sh have ob: "on_border cleared r c"
    by (simp add: on_border_def)
  with assms(1) cb have "\<not> px cleared r c"
    unfolding clears_border_def by blast
  with fg ob show ?thesis
    by (auto simp: on_border_def)
qed

lemma stand_in_clears_border: "clears_border stand_in"
proof -
  have "\<not> px (clear_connected m) r c" if "on_border (clear_connected m) r c" for m r c
  proof (cases "list_ex (\<lambda>(r, c). px m r c) (border_positions m)")
    case True
    then show ?thesis by (simp add: clear_connected_def)
  next
    case False
    then have eq: "clear_connected m = m" by (simp add: clear_connected_def)
    with that have "(r, c) \<in> set (border_positions m)"
      by (auto simp: on_border_def border_positions_def)
    with False have "\<not> px m r c"
      by (auto simp: list_ex_iff)
    with eq show ?thesis by simp
  qed
  moreover have "nrows (clear_connected m) = nrows m \<and> ncols (clear_connected m) = ncols m" for m
    by (simp add: clear_connected_def)
  ultimately show ?thesis
    by (auto simp: clears_border_def stand_in_def)
qed

lemma stand_in_labels_foreground: "labels_foreground stand_in"
  by (auto simp: labels_foreground_def stand_in_def label_one_def split: if_splits)

lemma stand_in_regions_by_label: "regions_by_label stand_in"
  by (auto simp: regions_by_label_def stand_in_def region_of_def comp_def)

lemma stand_in_calls:
  "remove_small_holes stand_in m = Inr m"
  "remove_small_objects stand_in m = Inr m"
  "clear_border stand_in m = Inr (clear_connected m)"
  "measure_label stand_in m = Inr (label_one m)"
  "regionprops stand_in lab img
     = Inr (map (region_of lab) (filter (\<lambda>l. 0 < l) (unique lab)))"
  by (simp_all add: stand_in_def)

lemma stand_in_threshold:
  "threshold_otsu stand_in block_image = Inr (1 / 2)"
  "threshold_otsu stand_in touching_image = Inr (1 / 2)"
  by (simp_all add: stand_in_def block_image_def touching_image_def)

lemma set_flat: "set (flat a) = {v. \<exists>r c. r < nrows a \<and> c < ncols a \<and> v = px a r c}"
  by (fastforce simp: flat_def)

lemma unique_of_set:
  assumes "set (flat a) = set vs" and "sorted vs" and "distinct vs"
  shows "unique a = vs"
proof -
  have "sorted (unique a)" and "distinct (unique a)" and "set (unique a) = set vs"
    using assms(1) by (simp_all add: unique_def)
  with assms(2,3) show ?thesis
    by (simp add: sorted_distinct_set_unique)
qed

lemma block_not_cleared:
  "clear_connected (ge_array block_image (1 / 2)) = ge_array block_image (1 / 2)"
proof -
  have "\<not> list_ex (\<lambda>(r, c). px (ge_array block_image (1 / 2)) r c)
          (border_positions (ge_array block_image (1 / 2)))"
    by (auto simp: list_ex_iff border_positions_def ge_array_def block_image_def)
  then show ?thesis
    by (simp add: clear_connected_def)
qed

lemma touching_cleared:
  "clear_connected (ge_array touching_image (1 / 2))
     = \<lparr>nrows = 12, ncols = 12, px = (\<lambda>r c. False)\<rparr>"
proof -
  have "(0, 2) \<in> set (border_positions (ge_array touching_image (1 / 2)))"
    by (simp add: border_positions_def ge_array_def touching_image_def)
  moreover have "px (ge_array touching_image (1 / 2)) 0 2"
    by (simp add: ge_array_def touching_image_def)
  ultimately have "list_ex (\<lambda>(r, c). px (ge_array touching_image (1 / 2)) r c)
          (border_positions (ge_array touching_image (1 / 2)))"
    unfolding list_ex_iff by (intro bexI [of _ "(0, 2)"]) simp_all
  then show ?thesis
    by (simp add: clear_connected_def ge_array_def touching_image_def)
qed

lemma block_unique: "unique (label_one (ge_array block_image (1 / 2))) = [0, 1]"
proof (rule unique_of_set)
  let ?lab = "label_one (ge_array block_image (1 / 2))"
  have dims: "nrows ?lab = 12" "ncols ?lab = 12"
    by (simp_all add: label_one_def ge_array_def block_image_def)
  have "\<exists>r c. r < nrows ?lab \<and> c < ncols ?lab \<and> 0 = px ?lab r c"
    by (intro exI [of _ 0]) (simp add: dims, simp add: label_one_def ge_array_def block_image_def)
  then have zero: "0 \<in> set (flat ?lab)"
    unfolding set_flat by simp
  have "\<exists>r c. r < nrows ?lab \<and> c < ncols ?lab \<and> 1 = px ?lab r c"
    by (intro exI [of _ 2]) (simp add: dims, simp add: label_one_def ge_array_def block_image_def)
  then have one: "1 \<in> set (flat ?lab)"
    unfolding set_flat by simp
  have "set (flat ?lab) \<subseteq> {0, 1}"
    by (auto simp: set_flat label_one_def)
  with zero one show "set (flat ?lab) = set [0, 1]"
    by auto
qed simp_all

lemma touching_unique:
  "unique (label_one \<lparr>nrows = 12, ncols = 12, px = (\<lambda>r c. False)\<rparr>) = [0]"
proof (rule unique_of_set)
  let ?lab = "label_one \<lparr>nrows = 12, ncols = 12, px = (\<lambda>r c. False)\<rparr>"
  have "\<exists>r c. r < nrows ?lab \<and> c < ncols ?lab \<and> 0 = px ?lab r c"
    by (intro exI [of _ 0]) (simp add: label_one_def)
  then have zero: "0 \<in> set (flat ?lab)"
    unfolding set_flat by simp
  have "set (flat ?lab) \<subseteq> {0}"
    by (auto simp: set_flat label_one_def)
  with zero show "set (flat ?lab) = set [0]"
    by auto
qed simp_all

lemma stand_in_block_run:
  "nuclei_segmentation stand_in block_image 30
     = Inr (label_one (ge_array block_image (1 / 2)),
            properties_frame
              (map (region_of (label_one (ge_array block_image (1 / 2)))) [1]))"
  by (simp add: nuclei_segmentation_def bind_exc_def Let_def stand_in_calls stand_in_threshold
      block_not_cleared block_unique)

lemma stand_in_touching_run:
  "nuclei_segmentation stand_in touching_image 30
     = Inr (label_one \<lparr>nrows = 12, ncols = 12, px = (\<lambda>r c. False)\<rparr>, properties_frame [])"
  by (simp add: nuclei_segmentation_def bind_exc_def Let_def stand_in_calls stand_in_threshold
      touching_cleared touching_unique)

text \<open>
  The stand-ins behave as documented, and on the image with the block in the middle the
  label image is 0 in the first row and 1 inside the block; the block that touches the
  first row is cleared.
\<close>

theorem nuclei_segmentation_border_is_background_witness:
  "clears_border stand_in \<and> labels_foreground stand_in
   \<and> on_border (label_one (ge_array block_image (1 / 2))) 0 1
   \<and> label_at (nuclei_segmentation stand_in block_image 30) 0 1 = Some 0
   \<and> label_at (nuclei_segmentation stand_in block_image 30) 2 2 = Some 1
   \<and> label_at (nuclei_segmentation stand_in touching_image 30) 0 2 = Some 0"
proof -
  let ?lab = "label_one (ge_array block_image (1 / 2))"
  have ob: "on_border ?lab 0 1"
    by (simp add: on_border_def label_one_def ge_array_def block_image_def)
  from nuclei_segmentation_border_is_background
    [OF stand_in_clears_border stand_in_labels_foreground stand_in_block_run ob]
  have "px ?lab 0 1 = 0" .
  moreover have "px ?lab 2 2 = 1"
    by (simp add: label_one_def ge_array_def block_image_def)
  moreover have "label_at (nuclei_segmentation stand_in touching_image 30) 0 2 = Some 0"
    by (simp add: stand_in_touching_run label_at_def label_one_def)
  ultimately show ?thesis
    using ob
    by (simp add: stand_in_block_run label_at_def stand_in_clears_border
        stand_in_labels_foreground)
qed

text \<open>
  Claim C6. When \<^verbatim>\<open>regionprops\<close> returns one region for each distinct positive label, and
  the primitives accept their arguments, the segmenter returns the label image with a
  table that is indexed by the positive labels of that image in increasing order and has
  as many rows as there are distinct positive labels; when the label image is all
  background the table is the empty one. Nothing after the primitives can raise.
\<close>

theorem nuclei_segmentation_one_record_per_label:
  assumes "regions_by_label lib"
    and "threshold_otsu lib img = Inr thresh_val"
    and "remove_small_holes lib (ge_array img thresh_val) = Inr holes"
    and "remove_small_objects lib holes = Inr objects"
    and "clear_border lib objects = Inr cleared"
    and "measure_label lib cleared = Inr label_image"
    and "regionprops lib label_image img = Inr regions"
  shows "\<exists>tab. nuclei_segmentation lib img radius = Inr (label_image, tab)
           \<and> index tab = filter (\<lambda>l. 0 < l) (unique label_image)
           \<and> length (index tab) = card {l \<in> set (flat label_image). 0 < l}
           \<and> length (rows tab) = card {l \<in> set (flat label_image). 0 < l}
           \<and> (list_all (\<lambda>l. l = 0) (flat label_image) \<longrightarrow> tab = empty_frame)"
proof -
  from assms(1,7) have lab: "map label regions = filter (\<lambda>l. 0 < l) (unique label_image)"
    unfolding regions_by_label_def by blast
  have run: "nuclei_segmentation lib img radius = Inr (label_image, properties_frame regions)"
    using assms(2-7) by (auto simp: nuclei_segmentation_Inr)
  have 1: "index (properties_frame regions) = filter (\<lambda>l. 0 < l) (unique label_image)"
    by (simp only: properties_frame_index lab)
  have 2: "length (index (properties_frame regions)) = card {l \<in> set (flat label_image). 0 < l}"
    by (simp only: 1 positive_labels_card)
  have "length (rows (properties_frame regions)) = length (map label regions)"
    by (simp add: properties_frame_rows)
  then have 3: "length (rows (properties_frame regions)) = card {l \<in> set (flat label_image). 0 < l}"
    by (simp only: lab positive_labels_card)
  have 4: "properties_frame regions = empty_frame" if "list_all (\<lambda>l. l = 0) (flat label_image)"
    using that lab by (simp add: properties_frame_empty positive_labels_none)
  from run 1 2 3 4 show ?thesis
    by blast
qed

theorem nuclei_segmentation_one_record_per_label_witness:
  "regions_by_label stand_in
   \<and> table_index (nuclei_segmentation stand_in block_image 30) = Some [1]
   \<and> table_index (nuclei_segmentation stand_in touching_image 30) = Some []"
proof -
  let ?m = "ge_array block_image (1 / 2)"
  let ?lab = "label_one ?m"
  have cc: "clear_border stand_in ?m = Inr ?m"
    by (simp only: stand_in_calls block_not_cleared)
  from nuclei_segmentation_one_record_per_label
    [OF stand_in_regions_by_label stand_in_threshold(1) stand_in_calls(1) stand_in_calls(2) cc
      stand_in_calls(4) stand_in_calls(5), of 30]
  obtain tab where "nuclei_segmentation stand_in block_image 30 = Inr (?lab, tab)"
    and "index tab = filter (\<lambda>l. 0 < l) (unique ?lab)"
    by blast
  then have a: "table_index (nuclei_segmentation stand_in block_image 30) = Some [1]"
    by (simp add: table_index_def block_unique)
  let ?t = "ge_array touching_image (1 / 2)"
  let ?z = "\<lparr>nrows = 12, ncols = 12, px = (\<lambda>r c. False)\<rparr>"
  have ct: "clear_border stand_in ?t = Inr ?z"
    by (simp only: stand_in_calls touching_cleared)
  from nuclei_segmentation_one_record_per_label
    [OF stand_in_regions_by_label stand_in_threshold(2) stand_in_calls(1) stand_in_calls(2) ct
      stand_in_calls(4) stand_in_calls(5), of 30]
  obtain tab' where "nuclei_segmentation stand_in touching_image 30 = Inr (label_one ?z, tab')"
    and "index tab' = filter (\<lambda>l. 0 < l) (unique (label_one ?z))"
    by blast
  then have b: "table_index (nuclei_segmentation stand_in touching_image 30) = Some []"
    by (simp add: table_index_def touching_unique)
  from a b stand_in_regions_by_label show ?thesis
    by blast
qed

section \<open>Properties of the nuclei segmenter on an array of any number of dimensions\<close>











end
